theory Spec2Isabelle
  imports Main
begin

section \<open>Python values, exceptions and outcomes\<close>

text \<open>
  The module \<^verbatim>\<open>anyio_typer/__init__.py\<close> is glue between a command-line dispatcher
  (Typer) and a structured-concurrency runtime (anyio).  The values that travel through it
  are opaque to it, so a small universe of Python values is enough: \<open>PDefault v\<close> is
  Typer's marker object \<^verbatim>\<open>Default(v)\<close>, \<open>PObj n\<close> an object known only by name
  (a class, a callable, a constant of another module).
\<close>

datatype pyval =
    PNone
  | PBool bool
  | PInt int
  | PStr string
  | PDict "(string \<times> pyval) list"
  | PObj string
  | PDefault pyval

type_synonym dict = "(string \<times> pyval) list"

text \<open>
  Exceptions.  The two conditions of the runtime's blocking-run entry point have a
  constructor each; \<open>Raised t m\<close> is any exception raised inside a handler, with its
  type name and message.
\<close>

datatype py_exception =
    LoopAlreadyRunning
  | BackendNotFound string
  | Raised string string

fun exc_type :: "py_exception \<Rightarrow> string" where
  "exc_type LoopAlreadyRunning = ''RuntimeError''"
| "exc_type (BackendNotFound b) = ''LookupError''"
| "exc_type (Raised t m) = t"

text \<open>
  What a call does: it returns a value, raises, or never completes (the calling thread
  stays blocked).
\<close>

datatype outcome =
    Returned pyval
  | Failed py_exception
  | NeverCompletes

section \<open>Mutable dictionaries\<close>

text \<open>
  A \<^verbatim>\<open>dict\<close> passed as \<^verbatim>\<open>options\<close> is a mutable object: the code holds a reference to
  it, and the store maps references to the current contents.
\<close>

type_synonym ref = nat

type_synonym heap = "ref \<Rightarrow> dict"

text \<open>
  Each \<^verbatim>\<open>options: dict[str, Any] = {}\<close> in a \<^verbatim>\<open>def\<close> header is evaluated once, when the
  function is defined, and creates a dict of its own.  The module has four such headers
  (\<^verbatim>\<open>_wrap\<close>, \<^verbatim>\<open>anyio_callback\<close>, \<^verbatim>\<open>anyio_command\<close>, \<^verbatim>\<open>run\<close>), in this order.
\<close>

definition wrap_default_options :: ref where
  "wrap_default_options = 0"

definition anyio_callback_default_options :: ref where
  "anyio_callback_default_options = 1"

definition anyio_command_default_options :: ref where
  "anyio_command_default_options = 2"

definition run_default_options :: ref where
  "run_default_options = 3"

text \<open>The store once the module is imported: every default dict is empty.\<close>

definition module_heap :: heap where
  "module_heap = (\<lambda>r. [])"

section \<open>Function objects\<close>

datatype param_kind = PositionalOrKeyword | KeywordOnly | VarPositional | VarKeyword

record param =
  p_name :: string
  p_kind :: param_kind
  p_annotation :: string
  p_default :: "pyval option"

text \<open>
  The event loop a coroutine runs on: the backend that drives it and the options the
  loop was created with.  A handler can observe both (the running loop's type, its
  debug flag), so its body takes the loop.
\<close>

record event_loop =
  loop_backend :: string
  loop_options :: dict

text \<open>An asynchronous handler: \<^verbatim>\<open>Callable[P, Awaitable[T]]\<close>.\<close>

record async_func =
  af_name :: string
  af_qualname :: string
  af_module :: string
  af_doc :: "string option"
  af_annotations :: "(string \<times> string) list"
  af_params :: "param list"
  af_body :: "event_loop \<Rightarrow> pyval list \<Rightarrow> dict \<Rightarrow> outcome"

text \<open>
  The synchronous function object that \<^verbatim>\<open>def sync_func\<close> creates.  Its closure has three
  cells: \<^verbatim>\<open>func\<close>, \<^verbatim>\<open>backend\<close> and \<^verbatim>\<open>options\<close>, the last one a reference.
\<close>

record sync_function =
  sf_name :: string
  sf_qualname :: string
  sf_module :: string
  sf_doc :: "string option"
  sf_annotations :: "(string \<times> string) list"
  sf_params :: "param list"
  sf_wrapped :: "async_func option"
  sf_func :: async_func
  sf_backend :: string
  sf_options :: ref

text \<open>
  Modelled from the spec: \<^verbatim>\<open>functools.wraps\<close> of the standard library, which is not part
  of the repository.  The spec (4.1, metadata preservation) has the wrapper present the
  name, docstring and parameter annotations of the handler; \<^verbatim>\<open>wraps\<close> does so by copying
  the identifying attributes and recording the handler as \<^verbatim>\<open>__wrapped__\<close>.
\<close>

definition wraps :: "async_func \<Rightarrow> sync_function \<Rightarrow> sync_function" where
  "wraps wrapped wrapper =
     wrapper\<lparr>sf_name := af_name wrapped,
             sf_qualname := af_qualname wrapped,
             sf_module := af_module wrapped,
             sf_doc := af_doc wrapped,
             sf_annotations := af_annotations wrapped,
             sf_wrapped := Some wrapped\<rparr>"

text \<open>
  Modelled from the spec: introspection as the dispatcher performs it
  (\<^verbatim>\<open>inspect.signature\<close>, not part of the repository): the declared parameters of a
  function object are those of the function it wraps, when it wraps one.
\<close>

definition signature_of :: "sync_function \<Rightarrow> param list" where
  "signature_of g = (case sf_wrapped g of Some f \<Rightarrow> af_params f | None \<Rightarrow> sf_params g)"

section \<open>The runtime's blocking-run entry point\<close>

text \<open>
  The state of the runtime when a wrapper is called: whether the calling thread is
  already running an event loop, and which backend names the runtime recognises.
\<close>

record runtime =
  loop_running :: bool
  backends :: "string list"

text \<open>
  Modelled from the spec: \<^verbatim>\<open>anyio.run\<close>, which is not part of the repository.  Spec 6: a
  blocking-run entry point with signature (async entry point, positional args, keyword
  args, backend name, backend options mapping), giving the handler's return value,
  raising on handler failure or on the loop-already-running and backend-not-found
  conditions; spec 4.1 lists the two conditions in this order.  The arguments for the
  entry point are one value \<open>args\<close> here.  The options mapping arrives as a reference
  and is read when the loop is created, a fresh loop for every call.
\<close>

definition anyio_run ::
  "runtime \<Rightarrow> heap \<Rightarrow> (event_loop \<Rightarrow> 'a \<Rightarrow> outcome) \<Rightarrow> 'a \<Rightarrow> string \<Rightarrow> ref \<Rightarrow> outcome" where
  "anyio_run rt h func args backend backend_options =
     (if loop_running rt then Failed LoopAlreadyRunning
      else if backend \<notin> set (backends rt) then Failed (BackendNotFound backend)
      else func \<lparr>loop_backend = backend, loop_options = h backend_options\<rparr> args)"

section \<open>The bridge constructor\<close>

text \<open>
  \<^verbatim>\<open>async def _main(args, kwargs): return await func(*args, **kwargs)\<close>
\<close>

definition main :: "async_func \<Rightarrow> event_loop \<Rightarrow> pyval list \<times> dict \<Rightarrow> outcome" where
  "main func loop packed = (case packed of (args, kwargs) \<Rightarrow> af_body func loop args kwargs)"

text \<open>
  The body of \<^verbatim>\<open>sync_func\<close>: the closure cells are read from the function object, the
  positional and keyword arguments are handed to \<^verbatim>\<open>anyio.run\<close> as the two positional
  arguments of \<^verbatim>\<open>_main\<close>.
\<close>

definition sync_func :: "runtime \<Rightarrow> heap \<Rightarrow> sync_function \<Rightarrow> pyval list \<Rightarrow> dict \<Rightarrow> outcome" where
  "sync_func rt h g args kwargs =
     anyio_run rt h (main (sf_func g)) (args, kwargs) (sf_backend g) (sf_options g)"

text \<open>The parameters of \<^verbatim>\<open>_wrap\<close> after \<^verbatim>\<open>func\<close>, and their defaults.\<close>

record wrap_args =
  w_backend :: string
  w_options :: ref

definition wrap_defaults :: wrap_args where
  "wrap_defaults = \<lparr>w_backend = ''asyncio'', w_options = wrap_default_options\<rparr>"

text \<open>
  The function object of \<^verbatim>\<open>def sync_func(*args: P.args, **kwargs: P.kwargs) -> T\<close> before
  the decorator is applied.
\<close>

definition sync_func_object :: "async_func \<Rightarrow> wrap_args \<Rightarrow> sync_function" where
  "sync_func_object func a =
     \<lparr>sf_name = ''sync_func'',
      sf_qualname = ''AnyioTyper._wrap.<locals>.sync_func'',
      sf_module = ''anyio_typer'',
      sf_doc = None,
      sf_annotations = [(''args'', ''P.args''), (''kwargs'', ''P.kwargs''), (''return'', ''T'')],
      sf_params =
        [\<lparr>p_name = ''args'', p_kind = VarPositional, p_annotation = ''P.args'', p_default = None\<rparr>,
         \<lparr>p_name = ''kwargs'', p_kind = VarKeyword, p_annotation = ''P.kwargs'', p_default = None\<rparr>],
      sf_wrapped = None,
      sf_func = func,
      sf_backend = w_backend a,
      sf_options = w_options a\<rparr>"

text \<open>\<^verbatim>\<open>_wrap\<close>: \<^verbatim>\<open>@wraps(func)\<close> applied to \<^verbatim>\<open>sync_func\<close>.\<close>

definition wrap :: "async_func \<Rightarrow> wrap_args \<Rightarrow> sync_function" where
  "wrap func a = wraps func (sync_func_object func a)"

text \<open>
  Awaiting \<^verbatim>\<open>F(*args, **kwargs)\<close> directly, on an event loop driven by something other
  than the wrapper.
\<close>

definition direct_await :: "event_loop \<Rightarrow> async_func \<Rightarrow> pyval list \<Rightarrow> dict \<Rightarrow> outcome" where
  "direct_await loop func args kwargs = af_body func loop args kwargs"

section \<open>The dispatcher's application object\<close>

text \<open>The keyword parameters of \<^verbatim>\<open>__init__\<close>, of both \<^verbatim>\<open>Typer\<close> and \<^verbatim>\<open>AnyioTyper\<close>.\<close>

record init_args =
  init_name :: pyval
  init_cls :: pyval
  init_invoke_without_command :: pyval
  init_no_args_is_help :: pyval
  init_subcommand_metavar :: pyval
  init_chain :: pyval
  init_result_callback :: pyval
  init_context_settings :: pyval
  init_callback :: pyval
  init_help :: pyval
  init_epilog :: pyval
  init_short_help :: pyval
  init_options_metavar :: pyval
  init_add_help_option :: pyval
  init_hidden :: pyval
  init_deprecated :: pyval
  init_add_completion :: pyval
  init_rich_markup_mode :: pyval
  init_rich_help_panel :: pyval
  init_suggest_commands :: pyval
  init_pretty_exceptions_enable :: pyval
  init_pretty_exceptions_show_locals :: pyval
  init_pretty_exceptions_short :: pyval

text \<open>
  The defaults of \<^verbatim>\<open>AnyioTyper.__init__\<close>.  \<^verbatim>\<open>DEFAULT_MARKUP_MODE\<close> is a constant of
  \<^verbatim>\<open>typer.main\<close>, known here by name only.
\<close>

definition init_defaults :: init_args where
  "init_defaults =
     \<lparr>init_name = PDefault PNone,
      init_cls = PDefault PNone,
      init_invoke_without_command = PDefault (PBool False),
      init_no_args_is_help = PDefault (PBool False),
      init_subcommand_metavar = PDefault PNone,
      init_chain = PDefault (PBool False),
      init_result_callback = PDefault PNone,
      init_context_settings = PDefault PNone,
      init_callback = PDefault PNone,
      init_help = PDefault PNone,
      init_epilog = PDefault PNone,
      init_short_help = PDefault PNone,
      init_options_metavar = PDefault (PStr ''[OPTIONS]''),
      init_add_help_option = PDefault (PBool True),
      init_hidden = PDefault (PBool False),
      init_deprecated = PDefault (PBool False),
      init_add_completion = PBool True,
      init_rich_markup_mode = PObj ''DEFAULT_MARKUP_MODE'',
      init_rich_help_panel = PDefault PNone,
      init_suggest_commands = PBool True,
      init_pretty_exceptions_enable = PBool True,
      init_pretty_exceptions_show_locals = PBool True,
      init_pretty_exceptions_short = PBool True\<rparr>"

text \<open>The parameters of the native \<^verbatim>\<open>Typer.command\<close> and \<^verbatim>\<open>Typer.callback\<close>.\<close>

record command_args =
  cmd_name :: pyval
  cmd_cls :: pyval
  cmd_context_settings :: pyval
  cmd_help :: pyval
  cmd_epilog :: pyval
  cmd_short_help :: pyval
  cmd_options_metavar :: pyval
  cmd_add_help_option :: pyval
  cmd_no_args_is_help :: pyval
  cmd_hidden :: pyval
  cmd_deprecated :: pyval
  cmd_rich_help_panel :: pyval

record callback_args =
  cb_cls :: pyval
  cb_invoke_without_command :: pyval
  cb_no_args_is_help :: pyval
  cb_subcommand_metavar :: pyval
  cb_chain :: pyval
  cb_result_callback :: pyval
  cb_context_settings :: pyval
  cb_help :: pyval
  cb_epilog :: pyval
  cb_short_help :: pyval
  cb_options_metavar :: pyval
  cb_add_help_option :: pyval
  cb_hidden :: pyval
  cb_deprecated :: pyval
  cb_rich_help_panel :: pyval

record command_info =
  ci_args :: command_args
  ci_callback :: sync_function

record callback_info =
  cbi_args :: callback_args
  cbi_callback :: sync_function

record typer_app =
  app_settings :: init_args
  registered_commands :: "command_info list"
  registered_callback :: "callback_info option"

text \<open>
  Modelled from the spec: \<^verbatim>\<open>Typer.__init__\<close>, which is not part of the repository.  The
  application object keeps the settings it is constructed with (spec 4.3: a facade
  instance with shell completion disabled) and starts with nothing registered.
\<close>

definition Typer_init :: "init_args \<Rightarrow> typer_app" where
  "Typer_init a = \<lparr>app_settings = a, registered_commands = [], registered_callback = None\<rparr>"

text \<open>
  Modelled from the spec: \<^verbatim>\<open>Typer.command\<close> and \<^verbatim>\<open>Typer.callback\<close>, which are not part of
  the repository.  Spec 6: a registration API accepting (synchronous handler, name, help
  metadata, visibility and deprecation flags, context settings) and recording a command
  object; the decorator hands back the function it was given.  An application has any
  number of commands and at most one callback.
\<close>

definition Typer_command ::
  "typer_app \<Rightarrow> command_args \<Rightarrow> sync_function \<Rightarrow> typer_app \<times> sync_function" where
  "Typer_command self a f =
     (self\<lparr>registered_commands :=
              registered_commands self @ [\<lparr>ci_args = a, ci_callback = f\<rparr>]\<rparr>, f)"

definition Typer_callback ::
  "typer_app \<Rightarrow> callback_args \<Rightarrow> sync_function \<Rightarrow> typer_app \<times> sync_function" where
  "Typer_callback self a f =
     (self\<lparr>registered_callback := Some \<lparr>cbi_args = a, cbi_callback = f\<rparr>\<rparr>, f)"

section \<open>The registration facade\<close>

text \<open>\<^verbatim>\<open>AnyioTyper.__init__\<close> passes every parameter on to \<^verbatim>\<open>Typer.__init__\<close>.\<close>

definition AnyioTyper_init :: "init_args \<Rightarrow> typer_app" where
  "AnyioTyper_init a =
     Typer_init
       \<lparr>init_name = init_name a,
        init_cls = init_cls a,
        init_invoke_without_command = init_invoke_without_command a,
        init_no_args_is_help = init_no_args_is_help a,
        init_subcommand_metavar = init_subcommand_metavar a,
        init_chain = init_chain a,
        init_result_callback = init_result_callback a,
        init_context_settings = init_context_settings a,
        init_callback = init_callback a,
        init_help = init_help a,
        init_epilog = init_epilog a,
        init_short_help = init_short_help a,
        init_options_metavar = init_options_metavar a,
        init_add_help_option = init_add_help_option a,
        init_hidden = init_hidden a,
        init_deprecated = init_deprecated a,
        init_add_completion = init_add_completion a,
        init_rich_markup_mode = init_rich_markup_mode a,
        init_rich_help_panel = init_rich_help_panel a,
        init_suggest_commands = init_suggest_commands a,
        init_pretty_exceptions_enable = init_pretty_exceptions_enable a,
        init_pretty_exceptions_show_locals = init_pretty_exceptions_show_locals a,
        init_pretty_exceptions_short = init_pretty_exceptions_short a\<rparr>"

text \<open>The parameters of \<^verbatim>\<open>anyio_callback\<close>, and their defaults.\<close>

record anyio_callback_args =
  acb_backend :: string
  acb_options :: ref
  acb_cls :: pyval
  acb_invoke_without_command :: pyval
  acb_no_args_is_help :: pyval
  acb_subcommand_metavar :: pyval
  acb_chain :: pyval
  acb_result_callback :: pyval
  acb_context_settings :: pyval
  acb_help :: pyval
  acb_epilog :: pyval
  acb_short_help :: pyval
  acb_options_metavar :: pyval
  acb_add_help_option :: pyval
  acb_hidden :: pyval
  acb_deprecated :: pyval
  acb_rich_help_panel :: pyval

definition anyio_callback_defaults :: anyio_callback_args where
  "anyio_callback_defaults =
     \<lparr>acb_backend = ''asyncio'',
      acb_options = anyio_callback_default_options,
      acb_cls = PDefault PNone,
      acb_invoke_without_command = PDefault (PBool False),
      acb_no_args_is_help = PDefault (PBool False),
      acb_subcommand_metavar = PDefault PNone,
      acb_chain = PDefault (PBool False),
      acb_result_callback = PDefault PNone,
      acb_context_settings = PDefault PNone,
      acb_help = PDefault PNone,
      acb_epilog = PDefault PNone,
      acb_short_help = PDefault PNone,
      acb_options_metavar = PDefault PNone,
      acb_add_help_option = PDefault (PBool True),
      acb_hidden = PDefault (PBool False),
      acb_deprecated = PDefault (PBool False),
      acb_rich_help_panel = PDefault PNone\<rparr>"

text \<open>
  \<^verbatim>\<open>anyio_callback(...)(async_func)\<close>: the decorator registers the wrapped handler with
  the native \<^verbatim>\<open>callback\<close> and returns \<^verbatim>\<open>async_func\<close>.  The result is the application
  object after the call and the value returned.
\<close>

definition anyio_callback ::
  "typer_app \<Rightarrow> anyio_callback_args \<Rightarrow> async_func \<Rightarrow> typer_app \<times> async_func" where
  "anyio_callback self a async_func =
     (case Typer_callback self
        \<lparr>cb_cls = acb_cls a,
         cb_invoke_without_command = acb_invoke_without_command a,
         cb_no_args_is_help = acb_no_args_is_help a,
         cb_subcommand_metavar = acb_subcommand_metavar a,
         cb_chain = acb_chain a,
         cb_result_callback = acb_result_callback a,
         cb_context_settings = acb_context_settings a,
         cb_help = acb_help a,
         cb_epilog = acb_epilog a,
         cb_short_help = acb_short_help a,
         cb_options_metavar = acb_options_metavar a,
         cb_add_help_option = acb_add_help_option a,
         cb_hidden = acb_hidden a,
         cb_deprecated = acb_deprecated a,
         cb_rich_help_panel = acb_rich_help_panel a\<rparr>
        (wrap async_func \<lparr>w_backend = acb_backend a, w_options = acb_options a\<rparr>)
      of (self', registered) \<Rightarrow> (self', async_func))"

text \<open>The parameters of \<^verbatim>\<open>anyio_command\<close>, and their defaults.\<close>

record anyio_command_args =
  ac_backend :: string
  ac_options :: ref
  ac_name :: pyval
  ac_cls :: pyval
  ac_context_settings :: pyval
  ac_help :: pyval
  ac_epilog :: pyval
  ac_short_help :: pyval
  ac_options_metavar :: pyval
  ac_add_help_option :: pyval
  ac_no_args_is_help :: pyval
  ac_hidden :: pyval
  ac_deprecated :: pyval
  ac_rich_help_panel :: pyval

definition anyio_command_defaults :: anyio_command_args where
  "anyio_command_defaults =
     \<lparr>ac_backend = ''asyncio'',
      ac_options = anyio_command_default_options,
      ac_name = PNone,
      ac_cls = PNone,
      ac_context_settings = PNone,
      ac_help = PNone,
      ac_epilog = PNone,
      ac_short_help = PNone,
      ac_options_metavar = PStr ''[OPTIONS]'',
      ac_add_help_option = PBool True,
      ac_no_args_is_help = PBool False,
      ac_hidden = PBool False,
      ac_deprecated = PBool False,
      ac_rich_help_panel = PDefault PNone\<rparr>"

text \<open>\<^verbatim>\<open>anyio_command(...)(async_func)\<close>, in the same way, through the native \<^verbatim>\<open>command\<close>.\<close>

definition anyio_command ::
  "typer_app \<Rightarrow> anyio_command_args \<Rightarrow> async_func \<Rightarrow> typer_app \<times> async_func" where
  "anyio_command self a async_func =
     (case Typer_command self
        \<lparr>cmd_name = ac_name a,
         cmd_cls = ac_cls a,
         cmd_context_settings = ac_context_settings a,
         cmd_help = ac_help a,
         cmd_epilog = ac_epilog a,
         cmd_short_help = ac_short_help a,
         cmd_options_metavar = ac_options_metavar a,
         cmd_add_help_option = ac_add_help_option a,
         cmd_no_args_is_help = ac_no_args_is_help a,
         cmd_hidden = ac_hidden a,
         cmd_deprecated = ac_deprecated a,
         cmd_rich_help_panel = ac_rich_help_panel a\<rparr>
        (wrap async_func \<lparr>w_backend = ac_backend a, w_options = ac_options a\<rparr>)
      of (self', registered) \<Rightarrow> (self', async_func))"

section \<open>The single-command entry point\<close>

record run_args =
  r_backend :: string
  r_options :: ref

definition run_defaults :: run_args where
  "run_defaults = \<lparr>r_backend = ''asyncio'', r_options = run_default_options\<rparr>"

text \<open>
  A call whose value is discarded, followed by the end of a function body without a
  \<^verbatim>\<open>return\<close> statement: the function returns \<^verbatim>\<open>None\<close> when the call returns, raises
  what the call raises, and never returns when the call never does.
\<close>

fun returns_none :: "outcome \<Rightarrow> outcome" where
  "returns_none (Returned v) = Returned PNone"
| "returns_none (Failed e) = Failed e"
| "returns_none NeverCompletes = NeverCompletes"

text \<open>
  \<^verbatim>\<open>run(function, backend, options)\<close>.  The dispatch-and-run cycle \<^verbatim>\<open>app()\<close> is
  \<^verbatim>\<open>Typer.__call__\<close>, which is not part of the repository: it is the parameter \<open>app_call\<close>
  (the dispatcher leaves the process by raising).  The result is the application
  object bound to the local \<^verbatim>\<open>app\<close> when \<^verbatim>\<open>app()\<close> is called, and what the call of \<^verbatim>\<open>run\<close>
  does.
\<close>

definition run ::
  "(typer_app \<Rightarrow> outcome) \<Rightarrow> async_func \<Rightarrow> run_args \<Rightarrow> typer_app \<times> outcome" where
  "run app_call function a =
     (let app = AnyioTyper_init (init_defaults\<lparr>init_add_completion := PBool False\<rparr>)
      in case anyio_command app
             (anyio_command_defaults\<lparr>ac_backend := r_backend a, ac_options := r_options a\<rparr>)
             function
         of (app', returned) \<Rightarrow> (app', returns_none (app_call app')))"

text \<open>
  The deprecated entry points \<^verbatim>\<open>uvloop_command\<close>, \<^verbatim>\<open>trio_command\<close>, \<^verbatim>\<open>uvloop_run\<close> and
  \<^verbatim>\<open>trio_run\<close> are calls of \<^verbatim>\<open>anyio_command\<close> and \<^verbatim>\<open>run\<close> with a fixed backend name or a
  fixed options dict; they are not part of this development.
\<close>

section \<open>Notions of the specification\<close>

text \<open>
  A handler is backend-agnostic when what it does on a loop does not depend on the name
  of the backend that drives the loop.
\<close>

definition backend_agnostic :: "async_func \<Rightarrow> bool" where
  "backend_agnostic f \<longleftrightarrow>
     (\<forall>b b' opts args kwargs.
        af_body f \<lparr>loop_backend = b, loop_options = opts\<rparr> args kwargs =
        af_body f \<lparr>loop_backend = b', loop_options = opts\<rparr> args kwargs)"

section \<open>Concrete handlers and runtime states\<close>

text \<open>
  The handler of \<^verbatim>\<open>tests/test_execution.py\<close>:
  \<^verbatim>\<open>async def hello(name: User = User.rick) -> None: print(f"Hello {name.value}!")\<close>
\<close>

definition hello :: async_func where
  "hello =
     \<lparr>af_name = ''hello'',
      af_qualname = ''test_enum_choice.<locals>.hello'',
      af_module = ''test_execution'',
      af_doc = None,
      af_annotations = [(''name'', ''User''), (''return'', ''None'')],
      af_params =
        [\<lparr>p_name = ''name'', p_kind = PositionalOrKeyword, p_annotation = ''User'',
          p_default = Some (PObj ''User.rick'')\<rparr>],
      af_body = (\<lambda>loop args kwargs. Returned PNone)\<rparr>"

text \<open>
  \<^verbatim>\<open>async def add(x: int, y: int) -> int: return x + y\<close>, called with positional
  arguments.
\<close>

fun add_body :: "event_loop \<Rightarrow> pyval list \<Rightarrow> dict \<Rightarrow> outcome" where
  "add_body loop [PInt x, PInt y] [] = Returned (PInt (x + y))"
| "add_body loop args kwargs = Failed (Raised ''TypeError'' ''add() called with wrong arguments'')"

definition add :: async_func where
  "add =
     \<lparr>af_name = ''add'',
      af_qualname = ''add'',
      af_module = ''__main__'',
      af_doc = Some ''Add two numbers.'',
      af_annotations = [(''x'', ''int''), (''y'', ''int''), (''return'', ''int'')],
      af_params =
        [\<lparr>p_name = ''x'', p_kind = PositionalOrKeyword, p_annotation = ''int'', p_default = None\<rparr>,
         \<lparr>p_name = ''y'', p_kind = PositionalOrKeyword, p_annotation = ''int'', p_default = None\<rparr>],
      af_body = add_body\<rparr>"

text \<open>\<^verbatim>\<open>async def boom() -> None: raise ValueError("boom")\<close>\<close>

definition boom :: async_func where
  "boom =
     \<lparr>af_name = ''boom'',
      af_qualname = ''boom'',
      af_module = ''__main__'',
      af_doc = None,
      af_annotations = [(''return'', ''None'')],
      af_params = [],
      af_body = (\<lambda>loop args kwargs. Failed (Raised ''ValueError'' ''boom''))\<rparr>"

text \<open>
  A handler that reports how the loop it runs on was configured (as a handler can, by
  looking at the running loop): it returns the options of the loop.
\<close>

definition loop_probe :: async_func where
  "loop_probe =
     \<lparr>af_name = ''loop_probe'',
      af_qualname = ''loop_probe'',
      af_module = ''__main__'',
      af_doc = None,
      af_annotations = [(''return'', ''dict'')],
      af_params = [],
      af_body = (\<lambda>loop args kwargs. Returned (PDict (loop_options loop)))\<rparr>"

text \<open>
  The calling thread runs no event loop and the runtime recognises the two backends the
  docstring of \<^verbatim>\<open>anyio_command\<close> names.
\<close>

definition idle_runtime :: runtime where
  "idle_runtime = \<lparr>loop_running = False, backends = [''asyncio'', ''trio'']\<rparr>"

text \<open>The same, called from a thread that already runs an event loop.\<close>

definition busy_runtime :: runtime where
  "busy_runtime = \<lparr>loop_running = True, backends = [''asyncio'', ''trio'']\<rparr>"

text \<open>
  A dispatcher call that leaves the process with exit status 0, as \<^verbatim>\<open>app()\<close> does after a
  command that succeeds.
\<close>

definition exits_with_zero :: "typer_app \<Rightarrow> outcome" where
  "exits_with_zero app = Failed (Raised ''SystemExit'' ''0'')"

text \<open>A fresh application object with the default settings.\<close>

definition fresh_app :: typer_app where
  "fresh_app = AnyioTyper_init init_defaults"

section \<open>Helper facts\<close>

lemma wrap_closure:
  "sf_func (wrap func w) = func"
  "sf_backend (wrap func w) = w_backend w"
  "sf_options (wrap func w) = w_options w"
  by (simp_all add: wrap_def wraps_def sync_func_object_def)

lemma wrap_metadata:
  "sf_name (wrap func w) = af_name func"
  "sf_qualname (wrap func w) = af_qualname func"
  "sf_module (wrap func w) = af_module func"
  "sf_doc (wrap func w) = af_doc func"
  "sf_annotations (wrap func w) = af_annotations func"
  "sf_wrapped (wrap func w) = Some func"
  by (simp_all add: wrap_def wraps_def sync_func_object_def)

lemma sync_func_wrap:
  "sync_func rt h (wrap func w) args kwargs =
     (if loop_running rt then Failed LoopAlreadyRunning
      else if w_backend w \<notin> set (backends rt) then Failed (BackendNotFound (w_backend w))
      else af_body func \<lparr>loop_backend = w_backend w, loop_options = h (w_options w)\<rparr> args kwargs)"
  by (simp add: sync_func_def anyio_run_def main_def wrap_closure)

lemma anyio_command_registers:
  "registered_commands (fst (anyio_command app a func)) =
     registered_commands app @
       [\<lparr>ci_args = \<lparr>cmd_name = ac_name a,
                   cmd_cls = ac_cls a,
                   cmd_context_settings = ac_context_settings a,
                   cmd_help = ac_help a,
                   cmd_epilog = ac_epilog a,
                   cmd_short_help = ac_short_help a,
                   cmd_options_metavar = ac_options_metavar a,
                   cmd_add_help_option = ac_add_help_option a,
                   cmd_no_args_is_help = ac_no_args_is_help a,
                   cmd_hidden = ac_hidden a,
                   cmd_deprecated = ac_deprecated a,
                   cmd_rich_help_panel = ac_rich_help_panel a\<rparr>,
         ci_callback = wrap func \<lparr>w_backend = ac_backend a, w_options = ac_options a\<rparr>\<rparr>]"
  "registered_callback (fst (anyio_command app a func)) = registered_callback app"
  "app_settings (fst (anyio_command app a func)) = app_settings app"
  "snd (anyio_command app a func) = func"
  by (simp_all add: anyio_command_def Typer_command_def)

lemma anyio_callback_registers:
  "registered_callback (fst (anyio_callback app b func)) =
     Some \<lparr>cbi_args = \<lparr>cb_cls = acb_cls b,
                       cb_invoke_without_command = acb_invoke_without_command b,
                       cb_no_args_is_help = acb_no_args_is_help b,
                       cb_subcommand_metavar = acb_subcommand_metavar b,
                       cb_chain = acb_chain b,
                       cb_result_callback = acb_result_callback b,
                       cb_context_settings = acb_context_settings b,
                       cb_help = acb_help b,
                       cb_epilog = acb_epilog b,
                       cb_short_help = acb_short_help b,
                       cb_options_metavar = acb_options_metavar b,
                       cb_add_help_option = acb_add_help_option b,
                       cb_hidden = acb_hidden b,
                       cb_deprecated = acb_deprecated b,
                       cb_rich_help_panel = acb_rich_help_panel b\<rparr>,
           cbi_callback = wrap func \<lparr>w_backend = acb_backend b, w_options = acb_options b\<rparr>\<rparr>"
  "registered_commands (fst (anyio_callback app b func)) = registered_commands app"
  "app_settings (fst (anyio_callback app b func)) = app_settings app"
  "snd (anyio_callback app b func) = func"
  by (simp_all add: anyio_callback_def Typer_callback_def)

lemma AnyioTyper_init_eq: "AnyioTyper_init a = Typer_init a"
  by (cases a) (simp add: AnyioTyper_init_def)

lemma run_app:
  "registered_commands (fst (run app_call function a)) =
     [\<lparr>ci_args = \<lparr>cmd_name = ac_name anyio_command_defaults,
                   cmd_cls = ac_cls anyio_command_defaults,
                   cmd_context_settings = ac_context_settings anyio_command_defaults,
                   cmd_help = ac_help anyio_command_defaults,
                   cmd_epilog = ac_epilog anyio_command_defaults,
                   cmd_short_help = ac_short_help anyio_command_defaults,
                   cmd_options_metavar = ac_options_metavar anyio_command_defaults,
                   cmd_add_help_option = ac_add_help_option anyio_command_defaults,
                   cmd_no_args_is_help = ac_no_args_is_help anyio_command_defaults,
                   cmd_hidden = ac_hidden anyio_command_defaults,
                   cmd_deprecated = ac_deprecated anyio_command_defaults,
                   cmd_rich_help_panel = ac_rich_help_panel anyio_command_defaults\<rparr>,
       ci_callback = wrap function \<lparr>w_backend = r_backend a, w_options = r_options a\<rparr>\<rparr>]"
  "registered_callback (fst (run app_call function a)) = None"
  "app_settings (fst (run app_call function a)) = init_defaults\<lparr>init_add_completion := PBool False\<rparr>"
  "snd (run app_call function a) = returns_none (app_call (fst (run app_call function a)))"
  by (simp_all add: run_def Let_def split_beta anyio_command_registers AnyioTyper_init_eq
        Typer_init_def)

section \<open>The bridge constructor: results and failures\<close>

text \<open>
  C1.  For every asynchronous handler and all arguments, calling the synchronous wrapper
  built by \<^verbatim>\<open>_wrap\<close> gives what awaiting \<^verbatim>\<open>F(*args, **kwargs)\<close> directly gives on an event
  loop that a separate run of the runtime drives (an entry point without parameters
  that awaits \<^verbatim>\<open>F(*args, **kwargs)\<close>).  Under the preconditions of the bridge (spec 4.1: the
  calling thread runs no event loop, the backend name is recognised) this is what
  awaiting \<^verbatim>\<open>F(*args, **kwargs)\<close> on a loop of that backend, created with the options,
  returns (or what it raises; and the wrapper blocks when the handler never completes).
\<close>

theorem wrapper_result_equals_direct_await:
  "sync_func rt h (wrap func \<lparr>w_backend = backend, w_options = options\<rparr>) args kwargs =
     anyio_run rt h (\<lambda>loop (u::unit). direct_await loop func args kwargs) () backend options
   \<and> (\<not> loop_running rt \<and> backend \<in> set (backends rt) \<longrightarrow>
        sync_func rt h (wrap func \<lparr>w_backend = backend, w_options = options\<rparr>) args kwargs =
          direct_await \<lparr>loop_backend = backend, loop_options = h options\<rparr> func args kwargs)"
  by (simp add: sync_func_wrap anyio_run_def direct_await_def)

theorem wrapper_result_equals_direct_await_witness:
  "\<not> loop_running idle_runtime \<and> ''asyncio'' \<in> set (backends idle_runtime) \<and>
   sync_func idle_runtime module_heap (wrap add \<lparr>w_backend = ''asyncio'', w_options = 7\<rparr>)
     [PInt 2, PInt 3] [] = Returned (PInt 5)"
  using wrapper_result_equals_direct_await
          [THEN conjunct2, of idle_runtime "''asyncio''" module_heap add 7 "[PInt 2, PInt 3]" "[]"]
  by (simp add: idle_runtime_def direct_await_def add_def)

text \<open>
  C2.  When awaiting \<^verbatim>\<open>F(*args, **kwargs)\<close> on an independently driven event loop raises an
  exception, the wrapper called with these arguments raises that very exception: the
  same type and the same message, neither wrapped nor translated.  In particular, under
  the preconditions of the bridge (spec 4.1), an exception raised inside the handler
  comes out of the wrapper as it is.
\<close>

theorem handler_exception_propagates_unchanged:
  "(anyio_run rt h (\<lambda>loop (u::unit). direct_await loop func args kwargs) () backend options =
      Failed e \<longrightarrow>
    sync_func rt h (wrap func \<lparr>w_backend = backend, w_options = options\<rparr>) args kwargs =
      Failed e) \<and>
   (\<not> loop_running rt \<and> backend \<in> set (backends rt) \<and>
    direct_await \<lparr>loop_backend = backend, loop_options = h options\<rparr> func args kwargs =
      Failed (Raised exc_name message) \<longrightarrow>
    sync_func rt h (wrap func \<lparr>w_backend = backend, w_options = options\<rparr>) args kwargs =
      Failed (Raised exc_name message) \<and>
    exc_type (Raised exc_name message) = exc_name)"
  by (simp add: sync_func_wrap anyio_run_def direct_await_def)

theorem handler_exception_propagates_unchanged_witness:
  "anyio_run idle_runtime module_heap (\<lambda>loop (u::unit). direct_await loop boom [] []) ()
     ''trio'' 7 = Failed (Raised ''ValueError'' ''boom'') \<and>
   \<not> loop_running idle_runtime \<and> ''trio'' \<in> set (backends idle_runtime) \<and>
   direct_await \<lparr>loop_backend = ''trio'', loop_options = module_heap 7\<rparr> boom [] [] =
     Failed (Raised ''ValueError'' ''boom'') \<and>
   sync_func idle_runtime module_heap (wrap boom \<lparr>w_backend = ''trio'', w_options = 7\<rparr>) [] [] =
     Failed (Raised ''ValueError'' ''boom'')"
  using handler_exception_propagates_unchanged
          [of idle_runtime module_heap boom "[]" "[]" "''trio''" 7
              "Raised ''ValueError'' ''boom''" "''ValueError''" "''boom''"]
  by (simp add: idle_runtime_def direct_await_def boom_def anyio_run_def)

section \<open>Metadata\<close>

text \<open>
  C3.  The wrapper presents the name, the docstring and the annotations of the handler,
  and introspection of its parameters gives the parameters of the handler (names, types
  and defaults); so the command and the callback that the facade registers declare the
  parameters of the handler.
\<close>

theorem wrapper_presents_handler_metadata:
  "sf_name (wrap func w) = af_name func \<and>
   sf_doc (wrap func w) = af_doc func \<and>
   sf_annotations (wrap func w) = af_annotations func \<and>
   signature_of (wrap func w) = af_params func \<and>
   map (signature_of \<circ> ci_callback) (registered_commands (fst (anyio_command app a func))) =
     map (signature_of \<circ> ci_callback) (registered_commands app) @ [af_params func] \<and>
   map_option (signature_of \<circ> cbi_callback) (registered_callback (fst (anyio_callback app b func))) =
     Some (af_params func)"
  by (simp add: wrap_metadata signature_of_def anyio_command_registers anyio_callback_registers)

section \<open>Registration\<close>

text \<open>
  C4.  Registration through \<^verbatim>\<open>anyio_command\<close> or \<^verbatim>\<open>anyio_callback\<close> does not look at the
  backend name or the options: whatever they are, the wrapper is registered.  The two
  failure conditions arise when the wrapper is invoked, and the wrapper's caller gets
  them as the runtime raised them: the loop-already-running condition (a
  \<^verbatim>\<open>RuntimeError\<close>) when the calling thread already runs an event loop, and otherwise the
  backend-not-found condition (a \<^verbatim>\<open>LookupError\<close>) when the backend name is not
  recognised.
\<close>

theorem registration_defers_backend_validation:
  "map ci_callback (registered_commands (fst (anyio_command app a func))) =
     map ci_callback (registered_commands app) @
       [wrap func \<lparr>w_backend = ac_backend a, w_options = ac_options a\<rparr>] \<and>
   map_option cbi_callback (registered_callback (fst (anyio_callback app b func))) =
     Some (wrap func \<lparr>w_backend = acb_backend b, w_options = acb_options b\<rparr>) \<and>
   (loop_running rt \<longrightarrow>
      sync_func rt h (wrap func w) args kwargs = Failed LoopAlreadyRunning) \<and>
   (\<not> loop_running rt \<and> w_backend w \<notin> set (backends rt) \<longrightarrow>
      sync_func rt h (wrap func w) args kwargs = Failed (BackendNotFound (w_backend w))) \<and>
   exc_type LoopAlreadyRunning = ''RuntimeError'' \<and>
   exc_type (BackendNotFound (w_backend w)) = ''LookupError''"
  by (simp add: anyio_command_registers anyio_callback_registers sync_func_wrap)

theorem registration_defers_backend_validation_witness:
  "map ci_callback (registered_commands
      (fst (anyio_command fresh_app (anyio_command_defaults\<lparr>ac_backend := ''curio''\<rparr>) hello))) =
     [wrap hello \<lparr>w_backend = ''curio'', w_options = anyio_command_default_options\<rparr>] \<and>
   loop_running busy_runtime \<and>
   sync_func busy_runtime module_heap (wrap hello \<lparr>w_backend = ''curio'', w_options = 2\<rparr>) [] [] =
     Failed LoopAlreadyRunning \<and>
   \<not> loop_running idle_runtime \<and> ''curio'' \<notin> set (backends idle_runtime) \<and>
   sync_func idle_runtime module_heap (wrap hello \<lparr>w_backend = ''curio'', w_options = 2\<rparr>) [] [] =
     Failed (BackendNotFound ''curio'')"
  using registration_defers_backend_validation
          [of fresh_app "anyio_command_defaults\<lparr>ac_backend := ''curio''\<rparr>" hello
              anyio_callback_defaults busy_runtime module_heap
              "\<lparr>w_backend = ''curio'', w_options = 2\<rparr>" "[]" "[]"]
        registration_defers_backend_validation
          [of fresh_app "anyio_command_defaults\<lparr>ac_backend := ''curio''\<rparr>" hello
              anyio_callback_defaults idle_runtime module_heap
              "\<lparr>w_backend = ''curio'', w_options = 2\<rparr>" "[]" "[]"]
  by (simp add: idle_runtime_def busy_runtime_def fresh_app_def AnyioTyper_init_eq Typer_init_def
        anyio_command_defaults_def)

text \<open>
  C6.  Each of the two decorators returns the handler it was given, as it is, whatever
  the backend name, the options and the native parameters are.  The registration is the
  side effect on the application object, and it does not depend on the value returned:
  \<^verbatim>\<open>anyio_command\<close> appends one command, whose callback is the wrapped handler, to the
  registered commands, and \<^verbatim>\<open>anyio_callback\<close> sets the registered callback to the wrapped
  handler; nothing else of the application object changes.
\<close>

theorem decorators_return_original_handler:
  "snd (anyio_command app a func) = func \<and>
   snd (anyio_callback app b func) = func \<and>
   anyio_command app a func =
     (app\<lparr>registered_commands :=
            registered_commands app @
              [\<lparr>ci_args = \<lparr>cmd_name = ac_name a,
                          cmd_cls = ac_cls a,
                          cmd_context_settings = ac_context_settings a,
                          cmd_help = ac_help a,
                          cmd_epilog = ac_epilog a,
                          cmd_short_help = ac_short_help a,
                          cmd_options_metavar = ac_options_metavar a,
                          cmd_add_help_option = ac_add_help_option a,
                          cmd_no_args_is_help = ac_no_args_is_help a,
                          cmd_hidden = ac_hidden a,
                          cmd_deprecated = ac_deprecated a,
                          cmd_rich_help_panel = ac_rich_help_panel a\<rparr>,
                ci_callback =
                  wrap func \<lparr>w_backend = ac_backend a, w_options = ac_options a\<rparr>\<rparr>]\<rparr>,
      func) \<and>
   anyio_callback app b func =
     (app\<lparr>registered_callback :=
            Some \<lparr>cbi_args = \<lparr>cb_cls = acb_cls b,
                              cb_invoke_without_command = acb_invoke_without_command b,
                              cb_no_args_is_help = acb_no_args_is_help b,
                              cb_subcommand_metavar = acb_subcommand_metavar b,
                              cb_chain = acb_chain b,
                              cb_result_callback = acb_result_callback b,
                              cb_context_settings = acb_context_settings b,
                              cb_help = acb_help b,
                              cb_epilog = acb_epilog b,
                              cb_short_help = acb_short_help b,
                              cb_options_metavar = acb_options_metavar b,
                              cb_add_help_option = acb_add_help_option b,
                              cb_hidden = acb_hidden b,
                              cb_deprecated = acb_deprecated b,
                              cb_rich_help_panel = acb_rich_help_panel b\<rparr>,
                  cbi_callback =
                    wrap func \<lparr>w_backend = acb_backend b, w_options = acb_options b\<rparr>\<rparr>\<rparr>,
      func) \<and>
   length (registered_commands (fst (anyio_command app a func))) =
     Suc (length (registered_commands app)) \<and>
   registered_callback (fst (anyio_callback app b func)) \<noteq> None"
  by (simp add: anyio_command_def anyio_callback_def Typer_command_def Typer_callback_def)

text \<open>
  C7.  The command that \<^verbatim>\<open>anyio_command\<close> registers carries, parameter by parameter, the
  values \<^verbatim>\<open>anyio_command\<close> was called with (\<^verbatim>\<open>name\<close>, \<^verbatim>\<open>cls\<close>, \<^verbatim>\<open>context_settings\<close>, \<^verbatim>\<open>help\<close>,
  \<^verbatim>\<open>epilog\<close>, \<^verbatim>\<open>short_help\<close>, \<^verbatim>\<open>options_metavar\<close>, \<^verbatim>\<open>add_help_option\<close>, \<^verbatim>\<open>no_args_is_help\<close>,
  \<^verbatim>\<open>hidden\<close>, \<^verbatim>\<open>deprecated\<close>, \<^verbatim>\<open>rich_help_panel\<close>), and the callback that \<^verbatim>\<open>anyio_callback\<close>
  registers those of \<^verbatim>\<open>anyio_callback\<close> (with \<^verbatim>\<open>chain\<close>, \<^verbatim>\<open>result_callback\<close>,
  \<^verbatim>\<open>invoke_without_command\<close>, \<^verbatim>\<open>subcommand_metavar\<close>); a parameter the caller leaves out has
  the facade's default and is passed on like any other.  The backend name and the
  options go to the bridge constructor only; their defaults are \<^verbatim>\<open>"asyncio"\<close> and an
  empty dict.  Nothing else of the application object changes.
\<close>

theorem facade_forwards_native_parameters:
  "(let ci = last (registered_commands (fst (anyio_command app a func))) in
        cmd_name (ci_args ci) = ac_name a \<and>
        cmd_cls (ci_args ci) = ac_cls a \<and>
        cmd_context_settings (ci_args ci) = ac_context_settings a \<and>
        cmd_help (ci_args ci) = ac_help a \<and>
        cmd_epilog (ci_args ci) = ac_epilog a \<and>
        cmd_short_help (ci_args ci) = ac_short_help a \<and>
        cmd_options_metavar (ci_args ci) = ac_options_metavar a \<and>
        cmd_add_help_option (ci_args ci) = ac_add_help_option a \<and>
        cmd_no_args_is_help (ci_args ci) = ac_no_args_is_help a \<and>
        cmd_hidden (ci_args ci) = ac_hidden a \<and>
        cmd_deprecated (ci_args ci) = ac_deprecated a \<and>
        cmd_rich_help_panel (ci_args ci) = ac_rich_help_panel a \<and>
        ci_callback ci = wrap func \<lparr>w_backend = ac_backend a, w_options = ac_options a\<rparr>) \<and>
   butlast (registered_commands (fst (anyio_command app a func))) = registered_commands app \<and>
   registered_callback (fst (anyio_command app a func)) = registered_callback app \<and>
   app_settings (fst (anyio_command app a func)) = app_settings app \<and>
   (let cbi = the (registered_callback (fst (anyio_callback app b func))) in
        cb_cls (cbi_args cbi) = acb_cls b \<and>
        cb_invoke_without_command (cbi_args cbi) = acb_invoke_without_command b \<and>
        cb_no_args_is_help (cbi_args cbi) = acb_no_args_is_help b \<and>
        cb_subcommand_metavar (cbi_args cbi) = acb_subcommand_metavar b \<and>
        cb_chain (cbi_args cbi) = acb_chain b \<and>
        cb_result_callback (cbi_args cbi) = acb_result_callback b \<and>
        cb_context_settings (cbi_args cbi) = acb_context_settings b \<and>
        cb_help (cbi_args cbi) = acb_help b \<and>
        cb_epilog (cbi_args cbi) = acb_epilog b \<and>
        cb_short_help (cbi_args cbi) = acb_short_help b \<and>
        cb_options_metavar (cbi_args cbi) = acb_options_metavar b \<and>
        cb_add_help_option (cbi_args cbi) = acb_add_help_option b \<and>
        cb_hidden (cbi_args cbi) = acb_hidden b \<and>
        cb_deprecated (cbi_args cbi) = acb_deprecated b \<and>
        cb_rich_help_panel (cbi_args cbi) = acb_rich_help_panel b \<and>
        cbi_callback cbi = wrap func \<lparr>w_backend = acb_backend b, w_options = acb_options b\<rparr>) \<and>
   registered_callback (fst (anyio_callback app b func)) \<noteq> None \<and>
   registered_commands (fst (anyio_callback app b func)) = registered_commands app \<and>
   app_settings (fst (anyio_callback app b func)) = app_settings app \<and>
   ac_backend anyio_command_defaults = ''asyncio'' \<and>
   module_heap (ac_options anyio_command_defaults) = [] \<and>
   acb_backend anyio_callback_defaults = ''asyncio'' \<and>
   module_heap (acb_options anyio_callback_defaults) = []"
  by (simp add: Let_def anyio_command_registers anyio_callback_registers
        anyio_command_defaults_def anyio_callback_defaults_def module_heap_def)

section \<open>The single-command entry point\<close>

text \<open>
  C8.  \<^verbatim>\<open>run(function, backend, options)\<close> builds an application object with shell
  completion disabled and every other setting at its default, registers the handler,
  wrapped for the given backend name and options, as its only command (with the default
  command parameters of \<^verbatim>\<open>anyio_command\<close>, and no callback), calls the dispatcher on this
  application at once, and returns \<^verbatim>\<open>None\<close> when the dispatcher returns; what the
  dispatcher raises, \<^verbatim>\<open>run\<close> raises.
\<close>

theorem run_registers_sole_command_and_dispatches:
  "run app_call function a =
     (let app =
        \<lparr>app_settings = init_defaults\<lparr>init_add_completion := PBool False\<rparr>,
         registered_commands =
           [\<lparr>ci_args = \<lparr>cmd_name = PNone,
                   cmd_cls = PNone,
                   cmd_context_settings = PNone,
                   cmd_help = PNone,
                   cmd_epilog = PNone,
                   cmd_short_help = PNone,
                   cmd_options_metavar = PStr ''[OPTIONS]'',
                   cmd_add_help_option = PBool True,
                   cmd_no_args_is_help = PBool False,
                   cmd_hidden = PBool False,
                   cmd_deprecated = PBool False,
                   cmd_rich_help_panel = PDefault PNone\<rparr>,
             ci_callback = wrap function \<lparr>w_backend = r_backend a, w_options = r_options a\<rparr>\<rparr>],
         registered_callback = None\<rparr>
      in (app, returns_none (app_call app))) \<and>
   init_add_completion (app_settings (fst (run app_call function a))) = PBool False \<and>
   returns_none (Returned v) = Returned PNone \<and>
   returns_none (Failed e) = Failed e"
  by (simp add: run_def Let_def split_beta anyio_command_def Typer_command_def
        AnyioTyper_init_eq Typer_init_def anyio_command_defaults_def)

section \<open>Backends\<close>

text \<open>
  C9.  For a backend-agnostic handler and any arguments, two wrappers that differ only in
  the backend name, both names being backends the runtime recognises, do the same when
  called in the same state: the same return value (or the same failure).
\<close>

theorem backend_choice_does_not_change_result:
  assumes "backend_agnostic func"
    and "b1 \<in> set (backends rt)" and "b2 \<in> set (backends rt)"
  shows "sync_func rt h (wrap func \<lparr>w_backend = b1, w_options = options\<rparr>) args kwargs =
         sync_func rt h (wrap func \<lparr>w_backend = b2, w_options = options\<rparr>) args kwargs"
proof -
  from assms(1) have
    "af_body func \<lparr>loop_backend = b1, loop_options = h options\<rparr> args kwargs =
     af_body func \<lparr>loop_backend = b2, loop_options = h options\<rparr> args kwargs"
    unfolding backend_agnostic_def by blast
  with assms(2,3) show ?thesis
    by (simp add: sync_func_wrap)
qed

theorem backend_choice_does_not_change_result_witness:
  "backend_agnostic add \<and>
   ''asyncio'' \<in> set (backends idle_runtime) \<and> ''trio'' \<in> set (backends idle_runtime) \<and>
   sync_func idle_runtime module_heap (wrap add \<lparr>w_backend = ''asyncio'', w_options = 7\<rparr>)
     [PInt 2, PInt 3] [] =
   sync_func idle_runtime module_heap (wrap add \<lparr>w_backend = ''trio'', w_options = 7\<rparr>)
     [PInt 2, PInt 3] []"
proof -
  have agnostic: "backend_agnostic add"
  proof -
    have "add_body \<lparr>loop_backend = b, loop_options = opts\<rparr> args kwargs =
          add_body \<lparr>loop_backend = b', loop_options = opts\<rparr> args kwargs"
      for b b' opts args kwargs
      by (cases "(\<lparr>loop_backend = b, loop_options = opts\<rparr>, args, kwargs)" rule: add_body.cases)
         simp_all
    then show ?thesis by (simp add: backend_agnostic_def add_def)
  qed
  have b1: "''asyncio'' \<in> set (backends idle_runtime)"
    and b2: "''trio'' \<in> set (backends idle_runtime)"
    by (simp_all add: idle_runtime_def)
  from backend_choice_does_not_change_result [OF agnostic b1 b2, of module_heap 7 "[PInt 2, PInt 3]" "[]"]
    agnostic b1 b2
  show ?thesis by simp
qed

section \<open>The options mapping\<close>

text \<open>
  C5, as the claim states it, fails: the wrapper holds the options mapping by reference,
  and a mutation of the mapping after registration changes what the wrapper does.  Here
  the handler reports the options of the loop it runs on; the same wrapper, called
  before and after the key \<^verbatim>\<open>use_uvloop\<close> is set in the dict it was registered with,
  returns two different values.
\<close>

theorem options_mutation_changes_wrapper_counterexample:
  "sync_func idle_runtime module_heap
     (wrap loop_probe \<lparr>w_backend = ''asyncio'', w_options = 7\<rparr>) [] [] = Returned (PDict []) \<and>
   sync_func idle_runtime (module_heap(7 := [(''use_uvloop'', PBool True)]))
     (wrap loop_probe \<lparr>w_backend = ''asyncio'', w_options = 7\<rparr>) [] [] =
     Returned (PDict [(''use_uvloop'', PBool True)]) \<and>
   sync_func idle_runtime module_heap
     (wrap loop_probe \<lparr>w_backend = ''asyncio'', w_options = 7\<rparr>) [] [] \<noteq>
   sync_func idle_runtime (module_heap(7 := [(''use_uvloop'', PBool True)]))
     (wrap loop_probe \<lparr>w_backend = ''asyncio'', w_options = 7\<rparr>) [] []"
  by (simp add: sync_func_wrap idle_runtime_def module_heap_def loop_probe_def)

text \<open>
  C5, amended.  The closure of the wrapper holds the backend name and a reference to the
  options mapping (not a copy of it), and neither cell is ever rebound: every invocation
  hands the runtime the backend name given at registration and the mapping given at
  registration, with the contents the mapping has at that time.  As long as the mapping
  itself is not mutated, whatever else changes in the store, the wrapper does the same.
\<close>

theorem wrapper_uses_captured_backend_and_options_reference:
  "sf_backend (wrap func \<lparr>w_backend = backend, w_options = options\<rparr>) = backend \<and>
   sf_options (wrap func \<lparr>w_backend = backend, w_options = options\<rparr>) = options \<and>
   sync_func rt h (wrap func \<lparr>w_backend = backend, w_options = options\<rparr>) args kwargs =
     anyio_run rt h (main func) (args, kwargs) backend options \<and>
   (h' options = h options \<longrightarrow>
      sync_func rt h' (wrap func \<lparr>w_backend = backend, w_options = options\<rparr>) args kwargs =
      sync_func rt h (wrap func \<lparr>w_backend = backend, w_options = options\<rparr>) args kwargs)"
  by (simp add: wrap_closure sync_func_def anyio_run_def)

theorem wrapper_uses_captured_backend_and_options_reference_witness:
  "(module_heap(8 := [(''debug'', PBool True)])) 7 = module_heap 7 \<and>
   sync_func idle_runtime (module_heap(8 := [(''debug'', PBool True)]))
     (wrap loop_probe \<lparr>w_backend = ''asyncio'', w_options = 7\<rparr>) [] [] =
   sync_func idle_runtime module_heap
     (wrap loop_probe \<lparr>w_backend = ''asyncio'', w_options = 7\<rparr>) [] []"
  using wrapper_uses_captured_backend_and_options_reference
          [of loop_probe "''asyncio''" 7 idle_runtime module_heap "[]" "[]"
              "module_heap(8 := [(''debug'', PBool True)])"]
  by simp

text \<open>
  C10, as the claim states it, fails: there is not one default dict.  Each of the four
  function headers has a default dict of its own, so a command registered through
  \<^verbatim>\<open>anyio_command\<close> without options and a callback registered through \<^verbatim>\<open>anyio_callback\<close>
  without options hold different dicts.
\<close>

theorem default_options_not_one_object_counterexample:
  "sf_options (ci_callback (last (registered_commands
      (fst (anyio_command fresh_app anyio_command_defaults hello))))) = 2 \<and>
   sf_options (cbi_callback (the (registered_callback
      (fst (anyio_callback fresh_app anyio_callback_defaults hello))))) = 1 \<and>
   sf_options (ci_callback (last (registered_commands
      (fst (run exits_with_zero hello run_defaults))))) = 3 \<and>
   sf_options (wrap hello wrap_defaults) = 0 \<and>
   sf_options (ci_callback (last (registered_commands
      (fst (anyio_command fresh_app anyio_command_defaults hello))))) \<noteq>
   sf_options (cbi_callback (the (registered_callback
      (fst (anyio_callback fresh_app anyio_callback_defaults hello)))))"
  by (simp add: anyio_command_registers anyio_callback_registers run_app wrap_closure
        fresh_app_def AnyioTyper_init_eq Typer_init_def
        anyio_command_defaults_def anyio_callback_defaults_def run_defaults_def wrap_defaults_def
        anyio_command_default_options_def anyio_callback_default_options_def
        run_default_options_def wrap_default_options_def)

text \<open>
  C10, amended.  Each of \<^verbatim>\<open>_wrap\<close>, \<^verbatim>\<open>anyio_command\<close>, \<^verbatim>\<open>anyio_callback\<close> and \<^verbatim>\<open>run\<close> has one
  default dict of its own, four different objects, and every call of one of them that
  leaves the options out binds the default dict of that function.  The wrapper holds
  the dict it is given by reference and hands this reference to the runtime's
  blocking-run entry point on every invocation; the mapping is never copied.  So the
  registrations that use the default of the same entry point share one mutable dict,
  and a mutation of the dict a wrapper was registered with is seen by its later
  invocations.
\<close>

theorem default_options_per_function_and_held_by_reference:
  "sf_options (wrap func (w\<lparr>w_options := w_options wrap_defaults\<rparr>)) = wrap_default_options \<and>
   map (sf_options \<circ> ci_callback)
     (registered_commands
       (fst (anyio_command app (a\<lparr>ac_options := ac_options anyio_command_defaults\<rparr>) func))) =
     map (sf_options \<circ> ci_callback) (registered_commands app) @ [anyio_command_default_options] \<and>
   map_option (sf_options \<circ> cbi_callback)
     (registered_callback
       (fst (anyio_callback app (b\<lparr>acb_options := acb_options anyio_callback_defaults\<rparr>) func))) =
     Some anyio_callback_default_options \<and>
   map (sf_options \<circ> ci_callback)
     (registered_commands (fst (run app_call func (r\<lparr>r_options := r_options run_defaults\<rparr>)))) =
     [run_default_options] \<and>
   distinct [wrap_default_options, anyio_callback_default_options,
             anyio_command_default_options, run_default_options] \<and>
   sf_options (wrap func w) = w_options w \<and>
   sync_func rt h g args kwargs =
     anyio_run rt h (main (sf_func g)) (args, kwargs) (sf_backend g) (sf_options g) \<and>
   (\<not> loop_running rt \<and> w_backend w \<in> set (backends rt) \<longrightarrow>
      sync_func rt (h(w_options w := d)) (wrap func w) args kwargs =
        direct_await \<lparr>loop_backend = w_backend w, loop_options = d\<rparr> func args kwargs)"
  by (simp add: wrap_closure anyio_command_registers anyio_callback_registers run_app
        direct_await_def sync_func_def anyio_run_def main_def
        anyio_command_defaults_def anyio_callback_defaults_def run_defaults_def wrap_defaults_def
        anyio_command_default_options_def anyio_callback_default_options_def
        run_default_options_def wrap_default_options_def)

theorem default_options_per_function_and_held_by_reference_witness:
  "\<not> loop_running idle_runtime \<and> ''asyncio'' \<in> set (backends idle_runtime) \<and>
   sync_func idle_runtime (module_heap(7 := [(''use_uvloop'', PBool True)]))
     (wrap loop_probe \<lparr>w_backend = ''asyncio'', w_options = 7\<rparr>) [] [] =
     Returned (PDict [(''use_uvloop'', PBool True)])"
  using default_options_per_function_and_held_by_reference
          [of loop_probe "\<lparr>w_backend = ''asyncio'', w_options = 7\<rparr>" fresh_app
              anyio_command_defaults anyio_callback_defaults "\<lambda>app. Returned PNone" run_defaults
              idle_runtime module_heap "wrap loop_probe wrap_defaults" "[]" "[]"
              "[(''use_uvloop'', PBool True)]"]
  by (simp add: idle_runtime_def direct_await_def loop_probe_def)

end
